theory Spec2Isabelle
  imports Complex_Main
begin

section \<open>Data model (types.ts)\<close>

text \<open>
  The TypeScript type \<open>number\<close> is an IEEE double. A double is a real number, so the
  fields are of type \<open>real\<close>; what differs between the parts of the program is how the
  arithmetic on them is modelled.

  \<^item> \<open>generateMockLoans\<close> uses only \<open>+\<close>, \<open>*\<close>, \<open>Math.floor\<close> and \<open>>\<close>, which IEEE 754
    defines exactly: each sum and product is the exact result rounded to the nearest
    double, ties to even. Its model rounds after every operation (\<open>js_add\<close>,
    \<open>js_mul\<close> below) and computes what the code computes, bit for bit.
  \<^item> \<open>trainPDModel\<close> and \<open>runVasicekSimulation\<close> go through \<open>Math.exp\<close>, \<open>Math.log\<close>,
    \<open>Math.cos\<close> and the imported \<open>normCDF\<close> and \<open>normInv\<close>, whose results ECMAScript
    leaves to the implementation. Their models take every operation exact. Rounding,
    overflow, signed zero, NaN and the infinities are not represented there; where
    JavaScript yields NaN or an infinity from finite operands (a division by zero, the
    square root of a negative number) the HOL term has some real value instead, and
    these places are marked at the definitions.

  Loop counters and the loan count are integers. The field \<open>id\<close> of a loan is called
  \<open>id_loan\<close>, since \<open>id\<close> is the identity function of HOL.
\<close>

record Loan =
  id_loan :: int
  EAD :: real
  LGD :: real
  prior_late_payments :: real
  pd_base :: real
  defaulted :: bool

section \<open>Double arithmetic\<close>

text \<open>
  Rounding to the nearest double. For \<open>x \<noteq> 0\<close> with \<open>2 ^ k \<le> \<bar>x\<bar> < 2 ^ (k + 1)\<close> the
  doubles around \<open>x\<close> are the multiples of \<open>2 ^ (k - 52)\<close> (53 significant bits), and
  the multiples of \<open>2 ^ (- 1074)\<close> in the subnormal range \<open>k < - 1022\<close>. \<open>x\<close> is rounded
  to the nearest multiple, a tie to the one with the even multiplier. A result of
  magnitude \<open>2 ^ 1024\<close> or more is \<open>Infinity\<close> in JavaScript and is not represented; no
  value of \<open>generateMockLoans\<close> exceeds 5000.
\<close>

definition round_half_even :: "real \<Rightarrow> int" where
  "round_half_even t =
     (let f = \<lfloor>t\<rfloor>
      in if t - of_int f < 1 / 2 then f
         else if t - of_int f > 1 / 2 then f + 1
         else if even f then f else f + 1)"

definition ulp_exponent :: "real \<Rightarrow> int" where
  "ulp_exponent x = max (\<lfloor>log 2 \<bar>x\<bar>\<rfloor> - 52) (- 1074)"

definition to_double :: "real \<Rightarrow> real" where
  "to_double x =
     (if x = 0 then 0
      else of_int (round_half_even (x / 2 powr of_int (ulp_exponent x)))
           * 2 powr of_int (ulp_exponent x))"

definition is_double :: "real \<Rightarrow> bool" where
  "is_double x = (to_double x = x)"

text \<open>The operators \<open>+\<close> and \<open>*\<close> of JavaScript on two doubles.\<close>

definition js_add :: "real \<Rightarrow> real \<Rightarrow> real" where
  "js_add x y = to_double (x + y)"

definition js_mul :: "real \<Rightarrow> real \<Rightarrow> real" where
  "js_mul x y = to_double (x * y)"

section \<open>The ambient effects: Math.random and performance.now\<close>

text \<open>
  \<open>Math.random()\<close> and \<open>performance.now()\<close> read process-wide state. The state is made
  explicit: an environment holds the uniform draws still to come and the clock readings
  still to come, and each call takes the first one and returns the environment without it.
\<close>

record env =
  random_tape :: "nat \<Rightarrow> real"
  clock_tape :: "nat \<Rightarrow> real"

definition Math_random :: "env \<Rightarrow> real \<times> env" where
  "Math_random e = (random_tape e 0, e\<lparr>random_tape := (\<lambda>n. random_tape e (Suc n))\<rparr>)"

definition performance_now :: "env \<Rightarrow> real \<times> env" where
  "performance_now e = (clock_tape e 0, e\<lparr>clock_tape := (\<lambda>n. clock_tape e (Suc n))\<rparr>)"

definition Math_floor :: "real \<Rightarrow> real" where
  "Math_floor x = of_int \<lfloor>x\<rfloor>"

section \<open>generateMockLoans (simulation.ts, lines 9-34)\<close>

text \<open>
  The \<open>for\<close> loop with its counter \<open>i\<close>, the array \<open>loans\<close> built by \<open>push\<close>, and the
  three calls of \<open>Math.random()\<close> of one round in the order of the source. A decimal
  literal denotes the double nearest to it: \<open>0.6\<close> and \<open>0.8\<close> are rounded, while 500,
  4500, 6, 3 and 1.5 are doubles themselves (lemma \<open>literals_exact\<close>). \<open>Math.floor\<close> and
  the comparison with 0 are exact.
\<close>

function generate_loop :: "int \<Rightarrow> int \<Rightarrow> Loan list \<Rightarrow> env \<Rightarrow> Loan list \<times> env" where
  "generate_loop count i loans e =
     (if i < count then
        (let (r1, e1) = Math_random e;
             EAD = js_add 500 (js_mul r1 4500);
             LGD = to_double 0.6;
             (r2, e2) = Math_random e1;
             prior_late_payments = Math_floor (js_mul r2 6);
             (r3, e3) = Math_random e2;
             latent_risk = js_add (js_add (-3) (js_mul (to_double 0.8) prior_late_payments))
                                  (js_mul r3 1.5);
             defaulted = (latent_risk > 0)
         in generate_loop count (i + 1)
              (loans @ [\<lparr>id_loan = i, EAD = EAD, LGD = LGD,
                         prior_late_payments = prior_late_payments,
                         pd_base = 0.0, defaulted = defaulted\<rparr>]) e3)
      else (loans, e))"
  by pat_completeness auto
termination
  by (relation "measure (\<lambda>(count, i, loans, e). nat (count - i))") auto

declare generate_loop.simps [simp del]

definition generateMockLoans :: "int \<Rightarrow> env \<Rightarrow> Loan list \<times> env" where
  "generateMockLoans count e = generate_loop count 0 [] e"

text \<open>
  One round of the loop as a function of the draws it consumes: round \<open>k\<close> reads the
  draws \<open>3k\<close>, \<open>3k+1\<close> and \<open>3k+2\<close>. Used to state what the loop has built.
\<close>

definition draws_loan :: "(nat \<Rightarrow> real) \<Rightarrow> int \<Rightarrow> nat \<Rightarrow> Loan" where
  "draws_loan tape i k =
     \<lparr>id_loan = i,
      EAD = js_add 500 (js_mul (tape (3 * k)) 4500),
      LGD = to_double 0.6,
      prior_late_payments = Math_floor (js_mul (tape (3 * k + 1)) 6),
      pd_base = 0,
      defaulted =
        (js_add (js_add (-3) (js_mul (to_double 0.8) (Math_floor (js_mul (tape (3 * k + 1)) 6))))
                (js_mul (tape (3 * k + 2)) 1.5) > 0)\<rparr>"

section \<open>trainPDModel (simulation.ts, lines 40-73)\<close>

definition learningRate :: real where
  "learningRate = 0.01"

definition epochs :: nat where
  "epochs = 500"

text \<open>The body of the inner loop \<open>for (const loan of loans)\<close>, on the two accumulators.\<close>

definition accumulate :: "real \<Rightarrow> real \<Rightarrow> real \<times> real \<Rightarrow> Loan \<Rightarrow> real \<times> real" where
  "accumulate intercept beta acc loan =
     (let (dIntercept, dBeta) = acc;
          x = prior_late_payments loan;
          y = (if defaulted loan then 1 else 0);
          z = intercept + (beta * x);
          prediction = 1 / (1 + exp (- z));
          error = prediction - y
      in (dIntercept + error, dBeta + error * x))"

text \<open>
  The outer loop over \<open>iter\<close>. For an empty array \<open>loans.length\<close> is 0 and JavaScript
  sets both parameters to NaN (0 / 0); the HOL quotient is 0 there. The parameters of an
  empty portfolio reach no loan, since the final \<open>map\<close> runs over the same empty array.
\<close>

function descent_loop :: "Loan list \<Rightarrow> nat \<Rightarrow> real \<times> real \<Rightarrow> real \<times> real" where
  "descent_loop loans iter (intercept, beta) =
     (if iter < epochs then
        (let (dIntercept, dBeta) = foldl (accumulate intercept beta) (0, 0) loans;
             intercept' = intercept - (learningRate * dIntercept) / real (length loans);
             beta' = beta - (learningRate * dBeta) / real (length loans)
         in descent_loop loans (iter + 1) (intercept', beta'))
      else (intercept, beta))"
  by pat_completeness auto
termination
  by (relation "measure (\<lambda>(loans, iter, p). epochs - iter)") auto

declare descent_loop.simps [simp del]

definition trainPDModel :: "Loan list \<Rightarrow> Loan list" where
  "trainPDModel loans =
     (let (intercept, beta) = descent_loop loans 0 (-1.0, 0.5)
      in map (\<lambda>loan.
                let z = intercept + (beta * prior_late_payments loan);
                    pd = 1 / (1 + exp (- z))
                in loan\<lparr>pd_base := pd\<rparr>) loans)"

text \<open>
  Whether a fitted \<open>pd_base\<close> can be exactly 0 or exactly 1 is decided by the rounding of
  doubles: \<open>1 + Math.exp(-z)\<close> rounds to 1 once \<open>z\<close> exceeds about 37, and
  \<open>Math.exp(-z)\<close> overflows to \<open>Infinity\<close> once \<open>z\<close> falls below about -709. The
  real-valued model has neither, so nothing is stated here about the strictness of the
  bounds (claim C5).
\<close>

subsection \<open>The trainer as the specification words it\<close>

text \<open>
  Written from the specification, to be compared with \<open>trainPDModel\<close>: the logistic
  model, the gradient of the average cross-entropy loss as two means over the whole
  portfolio, the update \<open>param -= learningRate * gradient\<close>, 500 epochs from
  \<open>(-1.0, 0.5)\<close> with learning rate 0.01.
\<close>

definition sigmoid :: "real \<Rightarrow> real" where
  "sigmoid z = 1 / (1 + exp (- z))"

definition mean :: "real list \<Rightarrow> real" where
  "mean xs = sum_list xs / real (length xs)"

definition spec_label :: "Loan \<Rightarrow> real" where
  "spec_label loan = (if defaulted loan then 1 else 0)"

definition spec_prediction :: "real \<times> real \<Rightarrow> Loan \<Rightarrow> real" where
  "spec_prediction p loan = sigmoid (fst p + snd p * prior_late_payments loan)"

definition spec_gradient :: "Loan list \<Rightarrow> real \<times> real \<Rightarrow> real \<times> real" where
  "spec_gradient loans p =
     (mean (map (\<lambda>loan. spec_prediction p loan - spec_label loan) loans),
      mean (map (\<lambda>loan. (spec_prediction p loan - spec_label loan) * prior_late_payments loan)
                loans))"

definition spec_epoch :: "Loan list \<Rightarrow> real \<times> real \<Rightarrow> real \<times> real" where
  "spec_epoch loans p =
     (fst p - 0.01 * fst (spec_gradient loans p), snd p - 0.01 * snd (spec_gradient loans p))"

definition spec_parameters :: "Loan list \<Rightarrow> real \<times> real" where
  "spec_parameters loans = (spec_epoch loans ^^ 500) (-1.0, 0.5)"

section \<open>runVasicekSimulation (simulation.ts, lines 78-144)\<close>

text \<open>
  \<open>normCDF\<close> and \<open>normInv\<close> are imported from \<open>./statistics\<close>, which is not among the
  sources. They are parameters of the model, and nothing is assumed about them except
  where a theorem says so.

  \<open>Math.sqrt\<close> of a negative number is NaN in JavaScript; \<open>sqrt\<close> of HOL is
  \<open>- sqrt (- x)\<close> there.
\<close>

record LoanParams =
  exposure :: real
  probitPd :: real

text \<open>The loop over \<open>j\<close>: the loss of one scenario, summed over \<open>loanParams\<close> in order.\<close>

definition scenario_loss :: "(real \<Rightarrow> real) \<Rightarrow> real \<Rightarrow> real \<Rightarrow> LoanParams list \<Rightarrow> real" where
  "scenario_loss normCDF systematicComponent denominator loanParams =
     foldl (\<lambda>iterationLoss lp.
              let score = (probitPd lp + systematicComponent) / denominator;
                  pdStressed = normCDF score
              in iterationLoss + exposure lp * pdStressed) 0 loanParams"

text \<open>The loop over \<open>i\<close>: two uniform draws, the Box-Muller transform, one loss pushed.\<close>

function simulation_loop ::
  "(real \<Rightarrow> real) \<Rightarrow> real \<Rightarrow> real \<Rightarrow> real \<Rightarrow> LoanParams list \<Rightarrow> int \<Rightarrow> int \<Rightarrow> real list \<Rightarrow> env
   \<Rightarrow> real list \<times> env" where
  "simulation_loop normCDF sqrtRho sqrtStress denominator loanParams iterations i losses e =
     (if i < iterations then
        (let (r1, e1) = Math_random e;
             u1 = (if r1 = 0 then 0.000000001 else r1);
             (u2, e2) = Math_random e1;
             Z = sqrt (-2.0 * ln u1) * cos (2.0 * pi * u2);
             systematicComponent = sqrtRho * sqrtStress * Z;
             iterationLoss = scenario_loss normCDF systematicComponent denominator loanParams
         in simulation_loop normCDF sqrtRho sqrtStress denominator loanParams iterations (i + 1)
              (losses @ [iterationLoss]) e2)
      else (losses, e))"
  by pat_completeness auto
termination
  by (relation "measure (\<lambda>(normCDF, sqrtRho, sqrtStress, denominator, loanParams,
                            iterations, i, losses, e). nat (iterations - i))") auto

declare simulation_loop.simps [simp del]

text \<open>
  The systemic shock \<open>Z\<close> of round \<open>k\<close> as a function of the draws it consumes: round
  \<open>k\<close> reads the draws \<open>2k\<close> and \<open>2k+1\<close>. Used to state what the loop has built.
\<close>

definition draws_Z :: "(nat \<Rightarrow> real) \<Rightarrow> nat \<Rightarrow> real" where
  "draws_Z tape k =
     sqrt (-2.0 * ln (if tape (2 * k) = 0 then 0.000000001 else tape (2 * k)))
     * cos (2.0 * pi * tape (2 * k + 1))"

text \<open>
  \<open>var99\<close> is read from the array \<open>losses\<close> by index. JavaScript returns
  \<open>undefined\<close> for an index outside the array; \<open>None\<close> stands for it.
\<close>

definition array_read :: "'a list \<Rightarrow> int \<Rightarrow> 'a option" where
  "array_read xs i = (if 0 \<le> i \<and> i < int (length xs) then Some (xs ! nat i) else None)"

record SimulationResult =
  scenarioName :: string
  stressFactor :: real
  meanEL :: real
  var99 :: "real option"
  losses :: "real list"
  processingTime :: real

text \<open>
  \<open>meanEL\<close> divides by \<open>iterations\<close>; for \<open>iterations = 0\<close> JavaScript gives NaN where
  the HOL quotient is 0.
\<close>

definition runVasicekSimulation ::
  "(real \<Rightarrow> real) \<Rightarrow> (real \<Rightarrow> real) \<Rightarrow> Loan list \<Rightarrow> int \<Rightarrow> real \<Rightarrow> real \<Rightarrow> string \<Rightarrow> env
   \<Rightarrow> SimulationResult \<times> env" where
  "runVasicekSimulation normCDF normInv loans iterations rho =
     (\<lambda>stressFactor scenarioName e.
        let (start, e0) = performance_now e;
            sqrtRho = sqrt rho;
            sqrtStress = sqrt stressFactor;
            denominator = sqrt (1 - rho);
            loanParams = map (\<lambda>l. \<lparr>exposure = EAD l * LGD l,
                                     probitPd = normInv (pd_base l)\<rparr>) loans;
            (losses, e1) = simulation_loop normCDF sqrtRho sqrtStress denominator loanParams
                             iterations 0 [] e0;
            losses = sort losses;
            totalLoss = foldl (\<lambda>sum l. sum + l) 0 losses;
            meanEL = totalLoss / of_int iterations;
            varIndex = \<lfloor>of_int iterations * (0.99 :: real)\<rfloor>;
            var99 = array_read losses varIndex;
            (finish, e2) = performance_now e1
        in (\<lparr>scenarioName = scenarioName, stressFactor = stressFactor, meanEL = meanEL,
             var99 = var99, losses = losses, processingTime = finish - start\<rparr>, e2))"

section \<open>How a call ends\<close>

text \<open>
  \<open>simulation.ts\<close> has no \<open>throw\<close> statement: the arithmetic of JavaScript numbers,
  \<open>Array.prototype.map\<close>, \<open>push\<close>, \<open>sort\<close> and \<open>reduce\<close> with an initial value
  raise nothing on arrays of numbers, and the two imported primitives are modelled as
  total functions, so each call of the two functions below runs to its \<open>return\<close>. The
  error names are the ones of the specification; the source defines none.
\<close>

datatype error = InvalidInput | InvalidParameter | NumericDomainError

definition trainPDModel_call :: "Loan list \<Rightarrow> error + Loan list" where
  "trainPDModel_call loans = Inr (trainPDModel loans)"

definition runVasicekSimulation_call ::
  "(real \<Rightarrow> real) \<Rightarrow> (real \<Rightarrow> real) \<Rightarrow> Loan list \<Rightarrow> int \<Rightarrow> real \<Rightarrow> real \<Rightarrow> string \<Rightarrow> env
   \<Rightarrow> error + SimulationResult \<times> env" where
  "runVasicekSimulation_call normCDF normInv loans iterations rho sf name e =
     Inr (runVasicekSimulation normCDF normInv loans iterations rho sf name e)"

section \<open>Rounding to doubles\<close>

lemma round_half_even_of_int [simp]: "round_half_even (of_int n) = n"
  by (simp add: round_half_even_def)

lemma round_half_even_bounds:
  "of_int (round_half_even t) \<le> t + 1 / 2" "t - 1 / 2 \<le> of_int (round_half_even t)"
  unfolding round_half_even_def Let_def by (auto; linarith)+

lemma round_half_even_floor:
  "\<lfloor>t\<rfloor> \<le> round_half_even t" "round_half_even t \<le> \<lfloor>t\<rfloor> + 1"
  unfolding round_half_even_def Let_def by auto

lemma round_half_even_mono:
  assumes "s \<le> t"
  shows "round_half_even s \<le> round_half_even t"
proof (cases "\<lfloor>s\<rfloor> = \<lfloor>t\<rfloor>")
  case True
  then show ?thesis
    using assms unfolding round_half_even_def Let_def by (auto; linarith)
next
  case False
  then have "\<lfloor>s\<rfloor> + 1 \<le> \<lfloor>t\<rfloor>" using floor_mono[OF assms] by linarith
  then show ?thesis
    using round_half_even_floor(2)[of s] round_half_even_floor(1)[of t] by linarith
qed

lemma round_half_even_ge: "of_int n \<le> t \<Longrightarrow> n \<le> round_half_even t"
  using round_half_even_mono[of "of_int n" t] by simp

lemma round_half_even_le: "t \<le> of_int n \<Longrightarrow> round_half_even t \<le> n"
  using round_half_even_mono[of t "of_int n"] by simp


lemma exponent_bounds:
  assumes "x \<noteq> 0"
  shows "2 powr of_int \<lfloor>log 2 \<bar>x\<bar>\<rfloor> \<le> \<bar>x\<bar>" "\<bar>x\<bar> < 2 powr of_int (\<lfloor>log 2 \<bar>x\<bar>\<rfloor> + 1)"
  using floor_log_eq_powr_iff[of "\<bar>x\<bar>" 2 "\<lfloor>log 2 \<bar>x\<bar>\<rfloor>"] assms by simp_all

lemma ulp_exponent_eval:
  assumes "x \<noteq> 0" "2 powr of_int k \<le> \<bar>x\<bar>" "\<bar>x\<bar> < 2 powr of_int (k + 1)" "- 1022 \<le> k"
  shows "ulp_exponent x = k - 52"
proof -
  have "\<lfloor>log 2 \<bar>x\<bar>\<rfloor> = k"
    using floor_log_eq_powr_iff[of "\<bar>x\<bar>" 2 k] assms by simp
  then show ?thesis using assms(4) by (simp add: ulp_exponent_def)
qed

lemma to_double_eval:
  assumes "x \<noteq> 0" "2 powr of_int k \<le> \<bar>x\<bar>" "\<bar>x\<bar> < 2 powr of_int (k + 1)" "- 1022 \<le> k"
  shows "to_double x =
         of_int (round_half_even (x / 2 powr of_int (k - 52))) * 2 powr of_int (k - 52)"
  using assms(1) by (simp add: to_double_def ulp_exponent_eval[OF assms])

lemma to_double_zero [simp]: "to_double 0 = 0"
  by (simp add: to_double_def)

lemma to_double_nonneg:
  assumes "0 \<le> x"
  shows "0 \<le> to_double x"
proof (cases "x = 0")
  case False
  have "0 \<le> x / 2 powr of_int (ulp_exponent x)" using assms by simp
  then have "0 \<le> round_half_even (x / 2 powr of_int (ulp_exponent x))"
    using round_half_even_ge[of 0] by simp
  then show ?thesis using False by (simp add: to_double_def)
qed simp

lemma ulp_exponent_mono:
  assumes "0 < x" "x \<le> y"
  shows "ulp_exponent x \<le> ulp_exponent y"
proof -
  have "log 2 \<bar>x\<bar> \<le> log 2 \<bar>y\<bar>" using assms by simp
  then have "\<lfloor>log 2 \<bar>x\<bar>\<rfloor> \<le> \<lfloor>log 2 \<bar>y\<bar>\<rfloor>" by (rule floor_mono)
  then show ?thesis by (simp add: ulp_exponent_def)
qed

lemma to_double_mono_pos:
  assumes "0 < x" "x \<le> y"
  shows "to_double x \<le> to_double y"
proof -
  let ?ex = "ulp_exponent x" and ?ey = "ulp_exponent y"
  have y: "0 < y" using assms by simp
  have le: "?ex \<le> ?ey" by (rule ulp_exponent_mono[OF assms])
  show ?thesis
  proof (cases "?ex = ?ey")
    case True
    have "x / 2 powr of_int ?ey \<le> y / 2 powr of_int ?ey"
      using assms by (simp add: divide_right_mono)
    then have "round_half_even (x / 2 powr of_int ?ey) \<le> round_half_even (y / 2 powr of_int ?ey)"
      by (rule round_half_even_mono)
    then have "real_of_int (round_half_even (x / 2 powr of_int ?ey)) * 2 powr of_int ?ey
               \<le> real_of_int (round_half_even (y / 2 powr of_int ?ey)) * 2 powr of_int ?ey"
      by (simp add: mult_right_mono)
    then show ?thesis using assms y True by (simp add: to_double_def)
  next
    case False
    then have lt: "?ex + 1 \<le> ?ey" using le by simp
    then have ey: "?ey = \<lfloor>log 2 \<bar>y\<bar>\<rfloor> - 52"
      by (simp add: ulp_exponent_def max_def split: if_splits)
    \<comment> \<open>\<open>y\<close> is at least \<open>2 ^ 52\<close> units of its own grid\<close>
    have "2 powr of_int (?ey + 52) \<le> y"
      using exponent_bounds(1)[of y] y ey by simp
    then have "2 powr 52 * 2 powr of_int ?ey \<le> y"
      by (simp add: powr_add mult.commute)
    then have "2 powr 52 \<le> y / 2 powr of_int ?ey"
      by (simp add: pos_le_divide_eq)
    then have "of_int (2 ^ 52) \<le> y / 2 powr of_int ?ey" by simp
    then have "2 ^ 52 \<le> round_half_even (y / 2 powr of_int ?ey)"
      by (rule round_half_even_ge)
    then have "(2 ^ 52 :: real) \<le> of_int (round_half_even (y / 2 powr of_int ?ey))"
      by (metis of_int_le_iff of_int_numeral of_int_power)
    then have "2 ^ 52 * 2 powr of_int ?ey
               \<le> real_of_int (round_half_even (y / 2 powr of_int ?ey)) * 2 powr of_int ?ey"
      by (simp add: mult_right_mono)
    then have low: "2 powr of_int (?ey + 52) \<le> to_double y"
      using y by (simp add: to_double_def powr_add mult.commute)
    \<comment> \<open>\<open>x\<close> is below \<open>2 ^ 53\<close> units of its own grid\<close>
    have "\<lfloor>log 2 \<bar>x\<bar>\<rfloor> - 52 \<le> ?ex" by (simp add: ulp_exponent_def)
    then have "of_int (\<lfloor>log 2 \<bar>x\<bar>\<rfloor> + 1) \<le> (of_int (?ex + 53) :: real)" by simp
    then have "2 powr of_int (\<lfloor>log 2 \<bar>x\<bar>\<rfloor> + 1) \<le> (2 :: real) powr of_int (?ex + 53)"
      by (rule powr_mono) simp
    moreover have "\<bar>x\<bar> < 2 powr of_int (\<lfloor>log 2 \<bar>x\<bar>\<rfloor> + 1)"
      using exponent_bounds(2)[of x] assms(1) by blast
    ultimately have "x < 2 powr of_int (?ex + 53)"
      by linarith
    then have "x < 2 powr 53 * 2 powr of_int ?ex"
      by (simp add: powr_add mult.commute)
    then have "x / 2 powr of_int ?ex \<le> 2 powr 53"
      by (simp add: pos_divide_le_eq less_imp_le)
    then have "x / 2 powr of_int ?ex \<le> of_int (2 ^ 53)" by simp
    then have "round_half_even (x / 2 powr of_int ?ex) \<le> 2 ^ 53"
      by (rule round_half_even_le)
    then have "of_int (round_half_even (x / 2 powr of_int ?ex)) \<le> (2 ^ 53 :: real)"
      by (metis of_int_le_iff of_int_numeral of_int_power)
    then have "real_of_int (round_half_even (x / 2 powr of_int ?ex)) * 2 powr of_int ?ex
               \<le> 2 ^ 53 * 2 powr of_int ?ex"
      by (simp add: mult_right_mono)
    then have high: "to_double x \<le> 2 powr of_int (?ex + 53)"
      using assms(1) by (simp add: to_double_def powr_add mult.commute)
    have "of_int (?ex + 53) \<le> (of_int (?ey + 52) :: real)" using lt by simp
    then have "(2 :: real) powr of_int (?ex + 53) \<le> 2 powr of_int (?ey + 52)"
      by (rule powr_mono) simp
    then show ?thesis using low high by linarith
  qed
qed

lemma to_double_mono:
  assumes "0 \<le> x" "x \<le> y"
  shows "to_double x \<le> to_double y"
proof (cases "x = 0")
  case True
  then show ?thesis using to_double_nonneg[of y] assms by simp
next
  case False
  then show ?thesis using to_double_mono_pos[of x y] assms by simp
qed

lemma to_double_eval_frac:
  assumes "x \<noteq> 0" "2 powr of_int k \<le> \<bar>x\<bar>" "\<bar>x\<bar> < 2 powr of_int (k + 1)" "- 1022 \<le> k" "k \<le> 52"
  shows "to_double x = of_int (round_half_even (x * 2 ^ nat (52 - k))) / 2 ^ nat (52 - k)"
proof -
  have "(2 :: real) powr of_int (k - 52) = 1 / 2 ^ nat (52 - k)"
  proof -
    have "(2 :: real) powr of_int (k - 52) = 2 powr (- real (nat (52 - k)))"
      using assms(5) by simp
    also have "\<dots> = 1 / 2 powr real (nat (52 - k))" by (simp add: powr_minus_divide)
    also have "\<dots> = 1 / 2 ^ nat (52 - k)" by (simp add: powr_realpow)
    finally show ?thesis .
  qed
  then show ?thesis using to_double_eval[OF assms(1-4)] by simp
qed

lemma is_double_less_one:
  assumes "is_double r" "0 \<le> r" "r < 1"
  shows "r \<le> 1 - 1 / 2 ^ 53"
proof (rule ccontr)
  assume "\<not> r \<le> 1 - 1 / 2 ^ 53"
  then have big: "1 - 1 / 2 ^ 53 < r" by simp
  then have half: "1 / 2 \<le> r" by simp
  have "to_double r = of_int (round_half_even (r * 2 ^ nat (52 - (- 1)))) / 2 ^ nat (52 - (- 1))"
    using half assms(3) by (intro to_double_eval_frac) simp_all
  then have "r = of_int (round_half_even (r * 2 ^ 53)) / 2 ^ 53"
    using assms(1) by (simp add: is_double_def)
  then obtain n :: int where n: "r = of_int n / 2 ^ 53" by blast
  from big n have "2 ^ 53 - 1 < (of_int n :: real)" by (simp add: field_simps)
  moreover from assms(3) n have "(of_int n :: real) < 2 ^ 53" by (simp add: field_simps)
  ultimately show False by simp
qed


text \<open>The literals of \<open>generateMockLoans\<close> that are doubles themselves.\<close>

lemma to_double_500: "to_double 500 = 500"
  by (subst to_double_eval_frac[where k = 8]) (simp_all add: round_half_even_def)

lemma literals_exact:
  "is_double 500 \<and> is_double 4500 \<and> is_double 6 \<and> is_double 3 \<and> is_double 1.5"
proof -
  have "to_double 4500 = 4500"
    by (subst to_double_eval_frac[where k = 12]) (simp_all add: round_half_even_def)
  moreover have "to_double 6 = 6"
    by (subst to_double_eval_frac[where k = 2]) (simp_all add: round_half_even_def)
  moreover have "to_double 3 = 3"
    by (subst to_double_eval_frac[where k = 1]) (simp_all add: round_half_even_def)
  moreover have "to_double 1.5 = 1.5"
    by (subst to_double_eval_frac[where k = 0]) (simp_all add: round_half_even_def)
  ultimately show ?thesis by (simp add: is_double_def to_double_500)
qed

text \<open>
  The two rounded literals: \<open>0.6\<close> is the double \<open>5404319552844595 / 2 ^ 53\<close>, a little
  below six tenths, and \<open>0.8\<close> is \<open>3602879701896397 / 2 ^ 52\<close>, a little above eight
  tenths.
\<close>

lemma to_double_six_tenths: "to_double 0.6 = 5404319552844595 / 2 ^ 53"
  by (subst to_double_eval_frac[where k = "- 1"]) (simp_all add: round_half_even_def)

lemma to_double_eight_tenths: "to_double 0.8 = 3602879701896397 / 2 ^ 52"
  by (subst to_double_eval_frac[where k = "- 1"]) (simp_all add: round_half_even_def)

text \<open>
  The largest products a draw can give: the largest double below 1 is \<open>1 - 2 ^ (- 53)\<close>,
  and its products with 4500, 6 and 1.5 round to the double just below 4500, 6 and 1.5.
\<close>

lemma to_double_4500_top: "to_double (4500 * (1 - 1 / 2 ^ 53)) = 4500 - 1 / 2 ^ 40"
  by (subst to_double_eval_frac[where k = 12]) (simp_all add: round_half_even_def)

lemma to_double_5000_top: "to_double (5000 - 1 / 2 ^ 40) = 5000 - 1 / 2 ^ 40"
  by (subst to_double_eval_frac[where k = 12]) (simp_all add: round_half_even_def)

lemma to_double_6_top: "to_double (6 * (1 - 1 / 2 ^ 53)) = 6 - 1 / 2 ^ 50"
  by (subst to_double_eval_frac[where k = 2]) (simp_all add: round_half_even_def)

lemma to_double_1_5_top: "to_double (1.5 * (1 - 1 / 2 ^ 53)) = 1.5 - 1 / 2 ^ 52"
  by (subst to_double_eval_frac[where k = 0]) (simp_all add: round_half_even_def)

lemma EAD_range:
  assumes "is_double r" "0 \<le> r" "r < 1"
  shows "500 \<le> js_add 500 (js_mul r 4500) \<and> js_add 500 (js_mul r 4500) < 5000"
proof -
  have top: "r \<le> 1 - 1 / 2 ^ 53" by (rule is_double_less_one[OF assms])
  have lo: "0 \<le> js_mul r 4500"
    unfolding js_mul_def using assms(2) by (intro to_double_nonneg) simp
  have "js_mul r 4500 \<le> to_double (4500 * (1 - 1 / 2 ^ 53))"
    unfolding js_mul_def using assms(2) top by (intro to_double_mono) simp_all
  then have hi: "js_mul r 4500 \<le> 4500 - 1 / 2 ^ 40" by (simp only: to_double_4500_top)
  have "to_double 500 \<le> js_add 500 (js_mul r 4500)"
    unfolding js_add_def using lo by (intro to_double_mono) simp_all
  moreover have "js_add 500 (js_mul r 4500) \<le> to_double (5000 - 1 / 2 ^ 40)"
    unfolding js_add_def using lo hi by (intro to_double_mono) simp_all
  ultimately show ?thesis unfolding to_double_500 to_double_5000_top by simp
qed

lemma prior_late_payments_range:
  assumes "is_double r" "0 \<le> r" "r < 1"
  shows "Math_floor (js_mul r 6) \<in> {0, 1, 2, 3, 4, 5}"
proof -
  have top: "r \<le> 1 - 1 / 2 ^ 53" by (rule is_double_less_one[OF assms])
  have lo: "0 \<le> js_mul r 6"
    unfolding js_mul_def using assms(2) by (intro to_double_nonneg) simp
  have "js_mul r 6 \<le> to_double (6 * (1 - 1 / 2 ^ 53))"
    unfolding js_mul_def using assms(2) top by (intro to_double_mono) simp_all
  then have hi: "js_mul r 6 < 6" unfolding to_double_6_top by simp
  have f0: "0 \<le> \<lfloor>js_mul r 6\<rfloor>" using lo by simp
  have f6: "\<lfloor>js_mul r 6\<rfloor> < 6" using hi by (simp add: floor_less_iff)
  have "\<lfloor>js_mul r 6\<rfloor> = 0 \<or> \<lfloor>js_mul r 6\<rfloor> = 1 \<or> \<lfloor>js_mul r 6\<rfloor> = 2 \<or>
        \<lfloor>js_mul r 6\<rfloor> = 3 \<or> \<lfloor>js_mul r 6\<rfloor> = 4 \<or> \<lfloor>js_mul r 6\<rfloor> = 5"
    using f0 f6 by arith
  then show ?thesis unfolding Math_floor_def by auto
qed

lemma u_range:
  assumes "is_double r" "0 \<le> r" "r < 1"
  shows "0 \<le> js_mul r 1.5 \<and> js_mul r 1.5 < 1.5"
proof -
  have top: "r \<le> 1 - 1 / 2 ^ 53" by (rule is_double_less_one[OF assms])
  have lo: "0 \<le> js_mul r 1.5"
    unfolding js_mul_def using assms(2) by (intro to_double_nonneg) simp
  have "js_mul r 1.5 \<le> to_double (1.5 * (1 - 1 / 2 ^ 53))"
    unfolding js_mul_def using assms(2) top by (intro to_double_mono) simp_all
  then have "js_mul r 1.5 < 1.5" unfolding to_double_1_5_top by simp
  then show ?thesis using lo by simp
qed

text \<open>The values of one round of the loop at three draws of one half.\<close>

lemma td_half: "to_double (1 / 2) = 1 / 2"
  by (subst to_double_eval_frac[where k = "- 1"]) (simp_all add: round_half_even_def)
lemma td_2250: "to_double 2250 = 2250"
  by (subst to_double_eval_frac[where k = 11]) (simp_all add: round_half_even_def)
lemma td_2750: "to_double 2750 = 2750"
  by (subst to_double_eval_frac[where k = 11]) (simp_all add: round_half_even_def)
lemma td_3: "to_double 3 = 3"
  by (subst to_double_eval_frac[where k = 1]) (simp_all add: round_half_even_def)
lemma td_a: "to_double (3602879701896397 / 2 ^ 52 * 3) = 5404319552844596 / 2 ^ 51"
  by (subst to_double_eval_frac[where k = 1]) (simp_all add: round_half_even_def)
lemma td_b: "to_double (- 3 + 5404319552844596 / 2 ^ 51) = - (1351079888211148 / 2 ^ 51)"
  by (subst to_double_eval_frac[where k = "- 1"]) (simp_all add: round_half_even_def)
lemma td_c: "to_double (3 / 4) = 3 / 4"
  by (subst to_double_eval_frac[where k = "- 1"]) (simp_all add: round_half_even_def)
lemma td_d: "to_double (- (1351079888211148 / 2 ^ 51) + 3 / 4) = 1351079888211152 / 2 ^ 53"
  by (subst to_double_eval_frac[where k = "- 3"]) (simp_all add: round_half_even_def powr_neg_numeral)

lemma latent_half:
  "js_add (js_add (-3) (js_mul (to_double 0.8) 3)) (js_mul (1 / 2) 1.5) = 1351079888211152 / 2 ^ 53"
proof -
  have a: "js_mul (to_double 0.8) 3 = 5404319552844596 / 2 ^ 51"
    unfolding js_mul_def to_double_eight_tenths by (rule td_a)
  have b: "js_add (-3) (5404319552844596 / 2 ^ 51) = - (1351079888211148 / 2 ^ 51)"
    unfolding js_add_def by (rule td_b)
  have c: "js_mul (1 / 2) 1.5 = 3 / 4"
    unfolding js_mul_def using td_c by simp
  have d: "js_add (- (1351079888211148 / 2 ^ 51)) (3 / 4) = 1351079888211152 / 2 ^ 53"
    unfolding js_add_def by (rule td_d)
  show ?thesis unfolding a b c d ..
qed


section \<open>The generated portfolio\<close>

lemma generate_loop_stop: "\<not> i < count \<Longrightarrow> generate_loop count i loans e = (loans, e)"
  by (simp add: generate_loop.simps)

lemma generate_loop_step:
  "i < count \<Longrightarrow>
   generate_loop count i loans e =
   generate_loop count (i + 1) (loans @ [draws_loan (random_tape e) i 0])
     (e\<lparr>random_tape := (\<lambda>n. random_tape e (n + 3))\<rparr>)"
  by (subst generate_loop.simps)
     (simp add: Math_random_def Let_def draws_loan_def numeral_3_eq_3)

lemma draws_loan_shift:
  "draws_loan (\<lambda>n. tape (n + 3)) j k = draws_loan tape j (Suc k)"
  by (simp add: draws_loan_def algebra_simps)

lemma generate_loop_closed:
  "fst (generate_loop count i loans e) =
   loans @ map (\<lambda>k. draws_loan (random_tape e) (i + int k) k) [0..<nat (count - i)]"
proof (induction "nat (count - i)" arbitrary: i loans e)
  case 0
  then show ?case by (simp add: generate_loop_stop)
next
  case (Suc m)
  then have lt: "i < count" and m: "m = nat (count - (i + 1))" by linarith+
  have upt: "[0..<nat (count - i)] = 0 # map Suc [0..<m]"
    using Suc.hyps(2) by (metis map_Suc_upt upt_conv_Cons zero_less_Suc)
  have "fst (generate_loop count i loans e) =
        (loans @ [draws_loan (random_tape e) i 0]) @
        map (\<lambda>k. draws_loan (\<lambda>n. random_tape e (n + 3)) (i + 1 + int k) k) [0..<m]"
    using Suc.hyps(1)[OF m] lt m by (simp add: generate_loop_step)
  also have "\<dots> = loans @ map (\<lambda>k. draws_loan (random_tape e) (i + int k) k) (0 # map Suc [0..<m])"
    by (simp add: draws_loan_shift o_def add.assoc)
  finally show ?case using upt by simp
qed

lemma generate_loop_tape:
  "random_tape (snd (generate_loop count i loans e)) =
   (\<lambda>n. random_tape e (n + 3 * nat (count - i)))"
proof (induction "nat (count - i)" arbitrary: i loans e)
  case 0
  then show ?case by (simp add: generate_loop_stop)
next
  case (Suc m)
  then have lt: "i < count" and m: "m = nat (count - (i + 1))" by linarith+
  have "3 * nat (count - i) = 3 * m + 3" using Suc.hyps(2) by simp
  then show ?case
    using Suc.hyps(1)[OF m] lt m by (simp add: generate_loop_step add.assoc)
qed

lemma map_int_upt: "map int [0..<m] = [0..int m - 1]"
  by (induction m) (simp_all add: upto_rec2)

text \<open>
  Claim C4. Given a random source whose draws are doubles in \<open>[0, 1)\<close>,
  \<open>generateMockLoans n\<close> returns exactly \<open>n\<close> loans (for every positive \<open>n\<close>; none for
  \<open>n \<le> 0\<close>) whose ids are the distinct values \<open>0, ..., n - 1\<close> in this order. Loan \<open>k\<close>
  has its \<open>EAD\<close> in \<open>[500, 5000)\<close>, \<open>LGD\<close> the double \<open>0.6\<close>, \<open>prior_late_payments\<close> an
  integer from 0 to 5, \<open>pd_base = 0\<close>, and \<open>defaulted = (latent > 0)\<close> for
  \<open>latent = -3 + 0.8 * prior_late_payments + u\<close> in the arithmetic of doubles, where
  \<open>u\<close> in \<open>[0, 1.5)\<close> is the product of 1.5 and the third draw of the round. Each of the
  three random quantities is computed from its own draw of the source by a product with
  a constant (and a sum or a floor), so it is as uniform as the source is.
\<close>

theorem generateMockLoans_portfolio:
  assumes draws: "\<forall>k. is_double (random_tape e k) \<and> 0 \<le> random_tape e k \<and> random_tape e k < 1"
  shows "length (fst (generateMockLoans n e)) = nat n \<and>
         map id_loan (fst (generateMockLoans n e)) = [0..n - 1] \<and>
         distinct (map id_loan (fst (generateMockLoans n e))) \<and>
         (\<forall>k < nat n.
            let loan = fst (generateMockLoans n e) ! k;
                u = js_mul (random_tape e (3 * k + 2)) 1.5
            in id_loan loan = int k \<and>
               EAD loan = js_add 500 (js_mul (random_tape e (3 * k)) 4500) \<and>
               500 \<le> EAD loan \<and> EAD loan < 5000 \<and>
               LGD loan = to_double 0.6 \<and>
               prior_late_payments loan = Math_floor (js_mul (random_tape e (3 * k + 1)) 6) \<and>
               prior_late_payments loan \<in> {0, 1, 2, 3, 4, 5} \<and>
               pd_base loan = 0 \<and>
               0 \<le> u \<and> u < 1.5 \<and>
               defaulted loan =
                 (js_add (js_add (-3) (js_mul (to_double 0.8) (prior_late_payments loan))) u > 0))"
proof -
  let ?ls = "fst (generateMockLoans n e)"
  have closed: "?ls = map (\<lambda>k. draws_loan (random_tape e) (int k) k) [0..<nat n]"
    by (simp add: generateMockLoans_def generate_loop_closed)
  have len: "length ?ls = nat n" by (simp add: closed)
  have "map id_loan ?ls = map int [0..<nat n]"
    by (simp add: closed draws_loan_def o_def)
  also have "\<dots> = [0..n - 1]"
    by (cases "0 \<le> n") (simp_all add: map_int_upt)
  finally have ids: "map id_loan ?ls = [0..n - 1]" .
  have dist: "distinct (map id_loan ?ls)" by (simp add: ids)
  have each: "\<And>k. k < nat n \<Longrightarrow> ?ls ! k = draws_loan (random_tape e) (int k) k"
    by (simp add: closed)
  have ead: "\<And>k. 500 \<le> js_add 500 (js_mul (random_tape e k) 4500) \<and>
                  js_add 500 (js_mul (random_tape e k) 4500) < 5000"
    using draws by (intro EAD_range) simp_all
  have plp: "\<And>k. Math_floor (js_mul (random_tape e k) 6) \<in> {0, 1, 2, 3, 4, 5}"
    using draws by (intro prior_late_payments_range) simp_all
  have u: "\<And>k. 0 \<le> js_mul (random_tape e k) 1.5 \<and> js_mul (random_tape e k) 1.5 < 1.5"
    using draws by (intro u_range) simp_all
  have loans: "\<forall>k < nat n.
            let loan = ?ls ! k;
                u = js_mul (random_tape e (3 * k + 2)) 1.5
            in id_loan loan = int k \<and>
               EAD loan = js_add 500 (js_mul (random_tape e (3 * k)) 4500) \<and>
               500 \<le> EAD loan \<and> EAD loan < 5000 \<and>
               LGD loan = to_double 0.6 \<and>
               prior_late_payments loan = Math_floor (js_mul (random_tape e (3 * k + 1)) 6) \<and>
               prior_late_payments loan \<in> {0, 1, 2, 3, 4, 5} \<and>
               pd_base loan = 0 \<and>
               0 \<le> u \<and> u < 1.5 \<and>
               defaulted loan =
                 (js_add (js_add (-3) (js_mul (to_double 0.8) (prior_late_payments loan))) u > 0)"
    using ead[of "3 * k" for k] plp[of "3 * k + 1" for k] u[of "3 * k + 2" for k]
    by (simp add: each draws_loan_def Let_def)
  show ?thesis using len ids dist loans by blast
qed

theorem generateMockLoans_portfolio_witness:
  "(\<forall>k. is_double (random_tape \<lparr>random_tape = (\<lambda>k. 1 / 2), clock_tape = (\<lambda>k. 0)\<rparr> k) \<and>
        0 \<le> random_tape \<lparr>random_tape = (\<lambda>k. 1 / 2), clock_tape = (\<lambda>k. 0)\<rparr> k \<and>
        random_tape \<lparr>random_tape = (\<lambda>k. 1 / 2), clock_tape = (\<lambda>k. 0)\<rparr> k < 1) \<and>
   length (fst (generateMockLoans 2 \<lparr>random_tape = (\<lambda>k. 1 / 2), clock_tape = (\<lambda>k. 0)\<rparr>)) = 2 \<and>
   map id_loan (fst (generateMockLoans 2 \<lparr>random_tape = (\<lambda>k. 1 / 2), clock_tape = (\<lambda>k. 0)\<rparr>)) = [0, 1] \<and>
   EAD (fst (generateMockLoans 2 \<lparr>random_tape = (\<lambda>k. 1 / 2), clock_tape = (\<lambda>k. 0)\<rparr>) ! 1) = 2750 \<and>
   prior_late_payments
     (fst (generateMockLoans 2 \<lparr>random_tape = (\<lambda>k. 1 / 2), clock_tape = (\<lambda>k. 0)\<rparr>) ! 1) = 3 \<and>
   defaulted (fst (generateMockLoans 2 \<lparr>random_tape = (\<lambda>k. 1 / 2), clock_tape = (\<lambda>k. 0)\<rparr>) ! 1)"
proof -
  let ?e = "\<lparr>random_tape = (\<lambda>k. 1 / 2 :: real), clock_tape = (\<lambda>k. 0 :: real)\<rparr>"
  let ?loan = "fst (generateMockLoans 2 ?e) ! 1"
  have h: "\<forall>k. is_double (random_tape ?e k) \<and> 0 \<le> random_tape ?e k \<and> random_tape ?e k < 1"
    by (simp add: is_double_def td_half)
  note t = generateMockLoans_portfolio [OF h, of 2]
  have two: "[0..2 - 1] = [0, 1 :: int]" by (simp add: upto_rec1)
  from t have len: "length (fst (generateMockLoans 2 ?e)) = nat 2"
    and ids: "map id_loan (fst (generateMockLoans 2 ?e)) = [0..2 - 1]"
    by blast+
  from t have "1 < nat 2 \<longrightarrow>
       (let loan = ?loan;
            u = js_mul (random_tape ?e (3 * 1 + 2)) 1.5
        in id_loan loan = int 1 \<and>
           EAD loan = js_add 500 (js_mul (random_tape ?e (3 * 1)) 4500) \<and>
           500 \<le> EAD loan \<and> EAD loan < 5000 \<and>
           LGD loan = to_double 0.6 \<and>
           prior_late_payments loan = Math_floor (js_mul (random_tape ?e (3 * 1 + 1)) 6) \<and>
           prior_late_payments loan \<in> {0, 1, 2, 3, 4, 5} \<and>
           pd_base loan = 0 \<and>
           0 \<le> u \<and> u < 1.5 \<and>
           defaulted loan =
             (js_add (js_add (-3) (js_mul (to_double 0.8) (prior_late_payments loan))) u > 0))"
    by blast
  then have ead: "EAD ?loan = js_add 500 (js_mul (1 / 2) 4500)"
    and plp: "prior_late_payments ?loan = Math_floor (js_mul (1 / 2) 6)"
    and dft: "defaulted ?loan =
        (js_add (js_add (-3) (js_mul (to_double 0.8) (prior_late_payments ?loan)))
                (js_mul (1 / 2) 1.5) > 0)"
    unfolding Let_def by simp_all
  have "js_add 500 (js_mul (1 / 2) 4500) = 2750"
    by (simp add: js_add_def js_mul_def td_2250 td_2750)
  then have ead': "EAD ?loan = 2750" using ead by simp
  have "Math_floor (js_mul (1 / 2) 6) = 3"
    by (simp add: js_mul_def td_3 Math_floor_def)
  then have plp': "prior_late_payments ?loan = 3" using plp by simp
  have dft': "defaulted ?loan" unfolding dft plp' latent_half by simp
  have "map id_loan (fst (generateMockLoans 2 ?e)) = [0, 1]" using ids two by simp
  then show ?thesis using h len ead' plp' dft' by simp
qed

text \<open>
  Two draws next to a threshold, where the rounding of the products decides. The draw
  \<open>0.16666666666666666\<close> (the double \<open>6004799503160661 / 2 ^ 55\<close>, just below one sixth)
  gives \<open>prior_late_payments = 1\<close>: its product with 6 lies half way between 1 and the
  double below 1 and rounds to 1, while the exact product is below 1. With
  \<open>prior_late_payments = 3\<close>, the third draw \<open>0.3999999999999999\<close> (the double
  \<open>1801439850948198 / 2 ^ 52\<close>) gives \<open>latent_risk = 2 ^ (- 52)\<close> and a defaulted loan,
  while the exact sum \<open>-3 + 0.8 * 3 + 1.5 * r\<close> is negative.
\<close>

lemma generateMockLoans_floor_at_sixth:
  "prior_late_payments
     (fst (generateMockLoans 1
        \<lparr>random_tape = (\<lambda>k. if k = 1 then 6004799503160661 / 2 ^ 55 else 1 / 2),
         clock_tape = (\<lambda>k. 0)\<rparr>) ! 0) = 1 \<and>
   \<lfloor>6004799503160661 / 2 ^ 55 * (6 :: real)\<rfloor> = 0"
proof -
  have "to_double (6004799503160661 / 2 ^ 55 * 6) = 1"
    by (subst to_double_eval_frac[where k = "- 1"]) (simp_all add: round_half_even_def)
  then have "Math_floor (js_mul (6004799503160661 / 2 ^ 55) 6) = 1"
    by (simp add: js_mul_def Math_floor_def)
  then show ?thesis
    by (simp add: generateMockLoans_def generate_loop_closed draws_loan_def)
qed

lemma generateMockLoans_default_at_threshold:
  "defaulted
     (fst (generateMockLoans 1
        \<lparr>random_tape = (\<lambda>k. if k = 2 then 1801439850948198 / 2 ^ 52 else 1 / 2),
         clock_tape = (\<lambda>k. 0)\<rparr>) ! 0) \<and>
   - 3 + 0.8 * 3 + 1801439850948198 / 2 ^ 52 * (1.5 :: real) < 0"
proof -
  have plp: "Math_floor (js_mul (1 / 2) 6) = 3"
    by (simp add: js_mul_def td_3 Math_floor_def)
  have a: "js_mul (to_double 0.8) 3 = 5404319552844596 / 2 ^ 51"
    unfolding js_mul_def to_double_eight_tenths by (rule td_a)
  have b: "js_add (-3) (5404319552844596 / 2 ^ 51) = - (1351079888211148 / 2 ^ 51)"
    unfolding js_add_def by (rule td_b)
  have "to_double (1801439850948198 / 2 ^ 52 * 1.5) = 2702159776422297 / 2 ^ 52"
    by (subst to_double_eval_frac[where k = "- 1"]) (simp_all add: round_half_even_def)
  then have c: "js_mul (1801439850948198 / 2 ^ 52) 1.5 = 2702159776422297 / 2 ^ 52"
    by (simp add: js_mul_def)
  have "to_double (- (1351079888211148 / 2 ^ 51) + 2702159776422297 / 2 ^ 52) = 1 / 2 ^ 52"
    by (subst to_double_eval_frac[where k = "- 52"])
       (simp_all add: round_half_even_def powr_neg_numeral)
  then have d: "js_add (- (1351079888211148 / 2 ^ 51)) (2702159776422297 / 2 ^ 52) = 1 / 2 ^ 52"
    by (simp add: js_add_def)
  have "js_add (js_add (-3) (js_mul (to_double 0.8) (Math_floor (js_mul (1 / 2) 6))))
               (js_mul (1801439850948198 / 2 ^ 52) 1.5) = 1 / 2 ^ 52"
    unfolding plp a b c d ..
  then show ?thesis
    by (simp add: generateMockLoans_def generate_loop_closed draws_loan_def)
qed

section \<open>The trained portfolio\<close>

lemma foldl_accumulate:
  "foldl (accumulate intercept beta) (dI, dB) loans =
   (dI + (\<Sum>loan\<leftarrow>loans. spec_prediction (intercept, beta) loan - spec_label loan),
    dB + (\<Sum>loan\<leftarrow>loans. (spec_prediction (intercept, beta) loan - spec_label loan)
                          * prior_late_payments loan))"
  by (induction loans arbitrary: dI dB)
     (simp_all add: accumulate_def Let_def spec_prediction_def spec_label_def sigmoid_def
        add.assoc)

lemma descent_loop_stop: "\<not> iter < epochs \<Longrightarrow> descent_loop loans iter p = p"
  by (cases p) (simp add: descent_loop.simps)

lemma descent_loop_step:
  "iter < epochs \<Longrightarrow> descent_loop loans iter p = descent_loop loans (iter + 1) (spec_epoch loans p)"
proof (cases p)
  case (Pair intercept beta)
  assume "iter < epochs"
  then show ?thesis
    unfolding Pair
    by (subst descent_loop.simps)
       (simp add: foldl_accumulate spec_epoch_def spec_gradient_def mean_def learningRate_def)
qed

lemma descent_loop_funpow:
  "descent_loop loans iter p = (spec_epoch loans ^^ (epochs - iter)) p"
proof (induction "epochs - iter" arbitrary: iter p)
  case 0
  then show ?case by (simp add: descent_loop_stop)
next
  case (Suc m)
  then have lt: "iter < epochs" and m: "m = epochs - (iter + 1)" by linarith+
  have "epochs - iter = Suc m" using Suc.hyps(2) by simp
  then show ?case
    using Suc.hyps(1)[OF m] lt m by (simp add: descent_loop_step funpow_swap1)
qed

lemma descent_loop_parameters: "descent_loop loans 0 (-1.0, 0.5) = spec_parameters loans"
  by (simp add: descent_loop_funpow spec_parameters_def epochs_def)

lemma trainPDModel_map:
  "trainPDModel loans =
   map (\<lambda>loan. loan\<lparr>pd_base := spec_prediction (spec_parameters loans) loan\<rparr>) loans"
  unfolding trainPDModel_def descent_loop_parameters
  by (simp add: Let_def case_prod_unfold spec_prediction_def sigmoid_def)

text \<open>
  Claim C3. For every non-empty portfolio, \<open>trainPDModel\<close> sets the \<open>pd_base\<close> of each
  loan to \<open>sigmoid (intercept + beta * prior_late_payments)\<close>, where \<open>(intercept, beta)\<close>
  are the parameters after exactly 500 full-batch epochs from \<open>(-1.0, 0.5)\<close> with
  learning rate 0.01, each epoch subtracting from both parameters the learning rate times
  the gradient, whose components are the mean of \<open>prediction - label\<close> and the mean of
  \<open>(prediction - label) * feature\<close> over the whole portfolio, both taken at the parameters
  the epoch started with.
\<close>

theorem trainPDModel_gradient_descent:
  assumes "loans \<noteq> []"
  shows "map pd_base (trainPDModel loans) =
         map (\<lambda>loan. sigmoid (fst (spec_parameters loans)
                               + snd (spec_parameters loans) * prior_late_payments loan)) loans"
  by (simp add: trainPDModel_map o_def spec_prediction_def)

theorem trainPDModel_gradient_descent_witness:
  "[\<lparr>id_loan = 7, EAD = 1000, LGD = 0.6, prior_late_payments = 2, pd_base = 0,
      defaulted = True\<rparr>] \<noteq> [] \<and>
   map pd_base (trainPDModel [\<lparr>id_loan = 7, EAD = 1000, LGD = 0.6, prior_late_payments = 2,
                                pd_base = 0, defaulted = True\<rparr>]) =
   [sigmoid (fst (spec_parameters [\<lparr>id_loan = 7, EAD = 1000, LGD = 0.6,
                                     prior_late_payments = 2, pd_base = 0, defaulted = True\<rparr>])
             + snd (spec_parameters [\<lparr>id_loan = 7, EAD = 1000, LGD = 0.6,
                                      prior_late_payments = 2, pd_base = 0, defaulted = True\<rparr>])
               * 2)]"
  using trainPDModel_gradient_descent
          [of "[\<lparr>id_loan = 7, EAD = 1000, LGD = 0.6, prior_late_payments = 2, pd_base = 0,
                 defaulted = True\<rparr>]"]
  by simp

text \<open>
  Claim C8. \<open>trainPDModel\<close> returns a portfolio of the same length and order: at each
  position every field other than \<open>pd_base\<close> (the id, \<open>EAD\<close>, \<open>LGD\<close>,
  \<open>prior_late_payments\<close>, \<open>defaulted\<close>) is the one of the input loan at that position.
\<close>

theorem trainPDModel_frame:
  "length (trainPDModel loans) = length loans \<and>
   (\<forall>i < length loans.
      id_loan (trainPDModel loans ! i) = id_loan (loans ! i) \<and>
      EAD (trainPDModel loans ! i) = EAD (loans ! i) \<and>
      LGD (trainPDModel loans ! i) = LGD (loans ! i) \<and>
      prior_late_payments (trainPDModel loans ! i) = prior_late_payments (loans ! i) \<and>
      defaulted (trainPDModel loans ! i) = defaulted (loans ! i))"
  by (simp add: trainPDModel_def Let_def case_prod_unfold)

theorem trainPDModel_frame_witness:
  "length (trainPDModel
     [\<lparr>id_loan = 0, EAD = 1000, LGD = 0.6, prior_late_payments = 1, pd_base = 0,
        defaulted = False\<rparr>,
      \<lparr>id_loan = 1, EAD = 2000, LGD = 0.6, prior_late_payments = 4, pd_base = 0,
        defaulted = True\<rparr>]) = 2 \<and>
   id_loan (trainPDModel
     [\<lparr>id_loan = 0, EAD = 1000, LGD = 0.6, prior_late_payments = 1, pd_base = 0,
        defaulted = False\<rparr>,
      \<lparr>id_loan = 1, EAD = 2000, LGD = 0.6, prior_late_payments = 4, pd_base = 0,
        defaulted = True\<rparr>] ! 1) = 1 \<and>
   EAD (trainPDModel
     [\<lparr>id_loan = 0, EAD = 1000, LGD = 0.6, prior_late_payments = 1, pd_base = 0,
        defaulted = False\<rparr>,
      \<lparr>id_loan = 1, EAD = 2000, LGD = 0.6, prior_late_payments = 4, pd_base = 0,
        defaulted = True\<rparr>] ! 1) = 2000 \<and>
   defaulted (trainPDModel
     [\<lparr>id_loan = 0, EAD = 1000, LGD = 0.6, prior_late_payments = 1, pd_base = 0,
        defaulted = False\<rparr>,
      \<lparr>id_loan = 1, EAD = 2000, LGD = 0.6, prior_late_payments = 4, pd_base = 0,
        defaulted = True\<rparr>] ! 1)"
proof -
  let ?L = "[\<lparr>id_loan = 0, EAD = 1000, LGD = 0.6, prior_late_payments = 1, pd_base = 0,
               defaulted = False\<rparr>,
             \<lparr>id_loan = 1, EAD = 2000, LGD = 0.6, prior_late_payments = 4, pd_base = 0,
               defaulted = True\<rparr>]"
  note t = trainPDModel_frame [of ?L]
  from t have len: "length (trainPDModel ?L) = length ?L" by (rule conjunct1)
  from t have "1 < length ?L \<longrightarrow>
      id_loan (trainPDModel ?L ! 1) = id_loan (?L ! 1) \<and>
      EAD (trainPDModel ?L ! 1) = EAD (?L ! 1) \<and>
      LGD (trainPDModel ?L ! 1) = LGD (?L ! 1) \<and>
      prior_late_payments (trainPDModel ?L ! 1) = prior_late_payments (?L ! 1) \<and>
      defaulted (trainPDModel ?L ! 1) = defaulted (?L ! 1)"
    by blast
  then show ?thesis using len by simp
qed

text \<open>
  Claim C10. After \<open>trainPDModel\<close>, two loans of the portfolio with equal
  \<open>prior_late_payments\<close> have equal \<open>pd_base\<close>, whatever their other fields are.
\<close>

theorem trainPDModel_same_feature_same_pd:
  assumes "i < length loans" and "j < length loans"
    and "prior_late_payments (loans ! i) = prior_late_payments (loans ! j)"
  shows "pd_base (trainPDModel loans ! i) = pd_base (trainPDModel loans ! j)"
  using assms by (simp add: trainPDModel_def Let_def case_prod_unfold)

theorem trainPDModel_same_feature_same_pd_witness:
  "(0::nat) < length
     [\<lparr>id_loan = 0, EAD = 1000, LGD = 0.6, prior_late_payments = 3, pd_base = 0,
        defaulted = False\<rparr>,
      \<lparr>id_loan = 1, EAD = 2000, LGD = 0.6, prior_late_payments = 3, pd_base = 0,
        defaulted = True\<rparr>] \<and>
   (1::nat) < length
     [\<lparr>id_loan = 0, EAD = 1000, LGD = 0.6, prior_late_payments = 3, pd_base = 0,
        defaulted = False\<rparr>,
      \<lparr>id_loan = 1, EAD = 2000, LGD = 0.6, prior_late_payments = 3, pd_base = 0,
        defaulted = True\<rparr>] \<and>
   prior_late_payments
     ([\<lparr>id_loan = 0, EAD = 1000, LGD = 0.6, prior_late_payments = 3, pd_base = 0,
         defaulted = False\<rparr>,
       \<lparr>id_loan = 1, EAD = 2000, LGD = 0.6, prior_late_payments = 3, pd_base = 0,
         defaulted = True\<rparr>] ! 0) =
   prior_late_payments
     ([\<lparr>id_loan = 0, EAD = 1000, LGD = 0.6, prior_late_payments = 3, pd_base = 0,
         defaulted = False\<rparr>,
       \<lparr>id_loan = 1, EAD = 2000, LGD = 0.6, prior_late_payments = 3, pd_base = 0,
         defaulted = True\<rparr>] ! 1) \<and>
   pd_base (trainPDModel
     [\<lparr>id_loan = 0, EAD = 1000, LGD = 0.6, prior_late_payments = 3, pd_base = 0,
        defaulted = False\<rparr>,
      \<lparr>id_loan = 1, EAD = 2000, LGD = 0.6, prior_late_payments = 3, pd_base = 0,
        defaulted = True\<rparr>] ! 0) =
   pd_base (trainPDModel
     [\<lparr>id_loan = 0, EAD = 1000, LGD = 0.6, prior_late_payments = 3, pd_base = 0,
        defaulted = False\<rparr>,
      \<lparr>id_loan = 1, EAD = 2000, LGD = 0.6, prior_late_payments = 3, pd_base = 0,
        defaulted = True\<rparr>] ! 1)"
  using trainPDModel_same_feature_same_pd
          [of 0 "[\<lparr>id_loan = 0, EAD = 1000, LGD = 0.6, prior_late_payments = 3, pd_base = 0,
                    defaulted = False\<rparr>,
                  \<lparr>id_loan = 1, EAD = 2000, LGD = 0.6, prior_late_payments = 3, pd_base = 0,
                    defaulted = True\<rparr>]" 1]
  by simp

text \<open>
  Claim C6, as stated: \<open>trainPDModel\<close> called with an empty portfolio fails with
  \<open>InvalidInput\<close>. It does not: the call returns.
\<close>

theorem trainPDModel_empty_counterexample:
  "trainPDModel_call [] \<noteq> Inl InvalidInput"
  by (simp add: trainPDModel_call_def)

text \<open>
  Claim C6, amended. \<open>trainPDModel\<close> called with an empty portfolio raises nothing: it
  returns the empty portfolio, which holds no loan and so no NaN.
\<close>

theorem trainPDModel_empty_returns:
  "trainPDModel_call [] = Inr []"
  by (simp add: trainPDModel_call_def trainPDModel_def case_prod_unfold)


section \<open>The simulation result\<close>

lemma simulation_loop_stop:
  "\<not> i < iterations \<Longrightarrow>
   simulation_loop normCDF sqrtRho sqrtStress denominator loanParams iterations i ls e = (ls, e)"
  by (simp add: simulation_loop.simps)

lemma simulation_loop_step:
  "i < iterations \<Longrightarrow>
   simulation_loop normCDF sqrtRho sqrtStress denominator loanParams iterations i ls e =
   simulation_loop normCDF sqrtRho sqrtStress denominator loanParams iterations (i + 1)
     (ls @ [scenario_loss normCDF (sqrtRho * sqrtStress * draws_Z (random_tape e) 0)
              denominator loanParams])
     (e\<lparr>random_tape := (\<lambda>n. random_tape e (n + 2))\<rparr>)"
  by (subst simulation_loop.simps)
     (simp add: Math_random_def Let_def draws_Z_def numeral_2_eq_2)

lemma draws_Z_shift: "draws_Z (\<lambda>n. tape (Suc (Suc n))) k = draws_Z tape (Suc k)"
  by (simp add: draws_Z_def)

lemma simulation_loop_closed:
  "fst (simulation_loop normCDF sqrtRho sqrtStress denominator loanParams iterations i ls e) =
   ls @ map (\<lambda>k. scenario_loss normCDF (sqrtRho * sqrtStress * draws_Z (random_tape e) k)
                   denominator loanParams)
            [0..<nat (iterations - i)]"
proof (induction "nat (iterations - i)" arbitrary: i ls e)
  case 0
  then show ?case by (simp add: simulation_loop_stop)
next
  case (Suc m)
  then have lt: "i < iterations" and m: "m = nat (iterations - (i + 1))" by linarith+
  have upt: "[0..<nat (iterations - i)] = 0 # map Suc [0..<m]"
    using Suc.hyps(2) by (metis map_Suc_upt upt_conv_Cons zero_less_Suc)
  show ?case
    using Suc.hyps(1)[OF m] lt m
    by (simp add: simulation_loop_step upt draws_Z_shift o_def)
qed

lemma simulation_loop_clock:
  "clock_tape (snd (simulation_loop normCDF sqrtRho sqrtStress denominator loanParams
                      iterations i ls e)) = clock_tape e"
proof (induction "nat (iterations - i)" arbitrary: i ls e)
  case 0
  then show ?case by (simp add: simulation_loop_stop)
next
  case (Suc m)
  then have lt: "i < iterations" and m: "m = nat (iterations - (i + 1))" by linarith+
  show ?case using Suc.hyps(1)[OF m] lt by (simp add: simulation_loop_step)
qed

lemma foldl_plus_sum_list: "foldl (\<lambda>sum l. sum + l) a xs = a + sum_list (xs :: real list)"
  by (induction xs arbitrary: a) (simp_all add: add.assoc)

lemma varIndex_range:
  assumes "0 < (N :: int)"
  shows "0 \<le> \<lfloor>of_int N * (0.99 :: real)\<rfloor> \<and> \<lfloor>of_int N * (0.99 :: real)\<rfloor> < N"
proof -
  have "0 \<le> of_int N * (0.99 :: real)" using assms by simp
  moreover have "of_int N * (0.99 :: real) < of_int N" using assms by simp
  ultimately show ?thesis by (simp add: floor_less_iff)
qed

text \<open>The fields of the result, one by one.\<close>

lemma losses_runVasicekSimulation:
  "losses (fst (runVasicekSimulation normCDF normInv loans iterations rho sf name e)) =
   sort (map (\<lambda>k. scenario_loss normCDF
                     (sqrt rho * sqrt sf * draws_Z (random_tape e) k) (sqrt (1 - rho))
                     (map (\<lambda>l. \<lparr>exposure = EAD l * LGD l, probitPd = normInv (pd_base l)\<rparr>)
                        loans))
          [0..<nat iterations])"
  by (simp add: runVasicekSimulation_def Let_def case_prod_unfold simulation_loop_closed
        performance_now_def)

lemma meanEL_runVasicekSimulation:
  "meanEL (fst (runVasicekSimulation normCDF normInv loans iterations rho sf name e)) =
   sum_list (losses (fst (runVasicekSimulation normCDF normInv loans iterations rho sf name e)))
   / of_int iterations"
  by (simp add: runVasicekSimulation_def Let_def case_prod_unfold foldl_plus_sum_list)

lemma var99_runVasicekSimulation:
  "var99 (fst (runVasicekSimulation normCDF normInv loans iterations rho sf name e)) =
   array_read (losses (fst (runVasicekSimulation normCDF normInv loans iterations rho sf name e)))
     \<lfloor>of_int iterations * (0.99 :: real)\<rfloor>"
  by (simp add: runVasicekSimulation_def Let_def case_prod_unfold)

lemma length_losses_runVasicekSimulation:
  "length (losses (fst (runVasicekSimulation normCDF normInv loans iterations rho sf name e))) =
   nat iterations"
  by (simp add: losses_runVasicekSimulation)


text \<open>
  Claim C1. For every portfolio and every positive integer \<open>N\<close>, \<open>runVasicekSimulation\<close>
  called with \<open>iterations = N\<close> returns \<open>losses\<close> of length exactly \<open>N\<close>, sorted
  ascending; \<open>var99\<close> is the entry of the sorted \<open>losses\<close> at the zero-based index
  \<open>floor (N * 0.99)\<close>, which lies inside the array; \<open>meanEL\<close> is the sum of the losses
  divided by \<open>N\<close>.
\<close>

theorem runVasicekSimulation_summary:
  assumes "0 < N"
  shows "let r = fst (runVasicekSimulation normCDF normInv loans N rho sf name e)
         in length (losses r) = nat N \<and>
            sorted (losses r) \<and>
            nat \<lfloor>of_int N * (0.99 :: real)\<rfloor> < length (losses r) \<and>
            var99 r = Some (losses r ! nat \<lfloor>of_int N * (0.99 :: real)\<rfloor>) \<and>
            meanEL r = sum_list (losses r) / of_int N"
proof -
  let ?r = "fst (runVasicekSimulation normCDF normInv loans N rho sf name e)"
  have len: "length (losses ?r) = nat N" by (rule length_losses_runVasicekSimulation)
  have srt: "sorted (losses ?r)" by (simp add: losses_runVasicekSimulation)
  have idx: "0 \<le> \<lfloor>of_int N * (0.99 :: real)\<rfloor>" "\<lfloor>of_int N * (0.99 :: real)\<rfloor> < N"
    using varIndex_range[OF assms] by blast+
  have inr: "nat \<lfloor>of_int N * (0.99 :: real)\<rfloor> < length (losses ?r)"
    using idx len by linarith
  have var: "var99 ?r = Some (losses ?r ! nat \<lfloor>of_int N * (0.99 :: real)\<rfloor>)"
    unfolding var99_runVasicekSimulation array_read_def using idx len by simp
  have avg: "meanEL ?r = sum_list (losses ?r) / of_int N"
    by (rule meanEL_runVasicekSimulation)
  show ?thesis unfolding Let_def using len srt inr var avg by blast
qed


theorem runVasicekSimulation_summary_witness:
  "(0::int) < 3 \<and>
   (let r = fst (runVasicekSimulation (\<lambda>x. x) (\<lambda>p. p)
                  [\<lparr>id_loan = 0, EAD = 1000, LGD = 0.6, prior_late_payments = 1,
                     pd_base = 0.05, defaulted = False\<rparr>]
                  3 0.2 1 ''Baseline Scenario''
                  \<lparr>random_tape = (\<lambda>k. 1 / 2), clock_tape = (\<lambda>k. 0)\<rparr>)
    in length (losses r) = 3 \<and> sorted (losses r) \<and>
       var99 r = Some (losses r ! 2) \<and>
       meanEL r = sum_list (losses r) / 3)"
  using runVasicekSimulation_summary
          [where N = 3 and normCDF = "\<lambda>x. x" and normInv = "\<lambda>p. p"
             and loans = "[\<lparr>id_loan = 0, EAD = 1000, LGD = 0.6, prior_late_payments = 1,
                            pd_base = 0.05, defaulted = False\<rparr>]"
             and rho = "0.2" and sf = 1 and name = "''Baseline Scenario''"
             and e = "\<lparr>random_tape = (\<lambda>k. 1 / 2), clock_tape = (\<lambda>k. 0)\<rparr>"]
  by (simp add: Let_def)






text \<open>
  Claim C9. Two calls of \<open>runVasicekSimulation\<close> with the same portfolio, iterations,
  \<open>rho\<close>, stress factor and scenario name, run on the same sequence of uniform draws,
  return the same \<open>losses\<close>, and so the same \<open>meanEL\<close> and \<open>var99\<close>. The two
  environments need to agree on the draws only: the clock readings, which decide
  \<open>processingTime\<close>, may differ.
\<close>

theorem runVasicekSimulation_deterministic:
  assumes "random_tape ea = random_tape eb"
  shows "losses (fst (runVasicekSimulation normCDF normInv loans iterations rho sf name ea)) =
         losses (fst (runVasicekSimulation normCDF normInv loans iterations rho sf name eb)) \<and>
         meanEL (fst (runVasicekSimulation normCDF normInv loans iterations rho sf name ea)) =
         meanEL (fst (runVasicekSimulation normCDF normInv loans iterations rho sf name eb)) \<and>
         var99 (fst (runVasicekSimulation normCDF normInv loans iterations rho sf name ea)) =
         var99 (fst (runVasicekSimulation normCDF normInv loans iterations rho sf name eb))"
proof -
  have "losses (fst (runVasicekSimulation normCDF normInv loans iterations rho sf name ea)) =
        losses (fst (runVasicekSimulation normCDF normInv loans iterations rho sf name eb))"
    using assms by (simp add: losses_runVasicekSimulation)
  then show ?thesis
    by (simp add: meanEL_runVasicekSimulation var99_runVasicekSimulation)
qed

theorem runVasicekSimulation_deterministic_witness:
  "random_tape \<lparr>random_tape = (\<lambda>k. 1 / (2 + real k)), clock_tape = (\<lambda>k. 0)\<rparr> =
   random_tape \<lparr>random_tape = (\<lambda>k. 1 / (2 + real k)), clock_tape = (\<lambda>k. 17 + real k)\<rparr> \<and>
   losses (fst (runVasicekSimulation (\<lambda>x. x) (\<lambda>p. p)
                  [\<lparr>id_loan = 0, EAD = 1000, LGD = 0.6, prior_late_payments = 1,
                     pd_base = 0.05, defaulted = False\<rparr>]
                  3 0.2 1 ''Baseline Scenario''
                  \<lparr>random_tape = (\<lambda>k. 1 / (2 + real k)), clock_tape = (\<lambda>k. 0)\<rparr>)) =
   losses (fst (runVasicekSimulation (\<lambda>x. x) (\<lambda>p. p)
                  [\<lparr>id_loan = 0, EAD = 1000, LGD = 0.6, prior_late_payments = 1,
                     pd_base = 0.05, defaulted = False\<rparr>]
                  3 0.2 1 ''Baseline Scenario''
                  \<lparr>random_tape = (\<lambda>k. 1 / (2 + real k)), clock_tape = (\<lambda>k. 17 + real k)\<rparr>))"
  using runVasicekSimulation_deterministic
          [where ea = "\<lparr>random_tape = (\<lambda>k. 1 / (2 + real k)), clock_tape = (\<lambda>k. 0)\<rparr>"
             and eb = "\<lparr>random_tape = (\<lambda>k. 1 / (2 + real k)),
                        clock_tape = (\<lambda>k. 17 + real k)\<rparr>"
             and normCDF = "\<lambda>x. x" and normInv = "\<lambda>p. p"
             and loans = "[\<lparr>id_loan = 0, EAD = 1000, LGD = 0.6, prior_late_payments = 1,
                            pd_base = 0.05, defaulted = False\<rparr>]"
             and iterations = 3 and rho = "0.2" and sf = 1 and name = "''Baseline Scenario''"]
  by simp

text \<open>
  Claim C7, as stated: \<open>runVasicekSimulation\<close> fails with \<open>InvalidParameter\<close> whenever
  \<open>rho \<ge> 1\<close>, \<open>rho < 0\<close> or \<open>iterations \<le> 0\<close>. It does not: each of the three calls
  below returns. The first two (\<open>rho = 1\<close>, \<open>rho = -1\<close>) run one iteration on an empty
  portfolio and call neither primitive; the third (\<open>iterations = 0\<close>) calls \<open>normInv\<close>
  on the probability 0.05 only and \<open>normCDF\<close> not at all.
\<close>

theorem runVasicekSimulation_unvalidated_counterexample:
  "runVasicekSimulation_call (\<lambda>x. x) (\<lambda>p. p) [] 1 1 1 ''Baseline Scenario''
     \<lparr>random_tape = (\<lambda>k. 1 / 2), clock_tape = (\<lambda>k. 0)\<rparr> \<noteq> Inl InvalidParameter \<and>
   runVasicekSimulation_call (\<lambda>x. x) (\<lambda>p. p) [] 1 (- 1) 1 ''Baseline Scenario''
     \<lparr>random_tape = (\<lambda>k. 1 / 2), clock_tape = (\<lambda>k. 0)\<rparr> \<noteq> Inl InvalidParameter \<and>
   runVasicekSimulation_call (\<lambda>x. x) (\<lambda>p. p)
     [\<lparr>id_loan = 0, EAD = 1000, LGD = 0.6, prior_late_payments = 1, pd_base = 0.05,
        defaulted = False\<rparr>] 0 0.2 1 ''Baseline Scenario''
     \<lparr>random_tape = (\<lambda>k. 1 / 2), clock_tape = (\<lambda>k. 0)\<rparr> \<noteq> Inl InvalidParameter"
  by (simp add: runVasicekSimulation_call_def)

text \<open>
  Claim C7, amended. \<open>runVasicekSimulation\<close> validates none of its parameters and raises
  no \<open>InvalidParameter\<close>: for every \<open>rho\<close> and every integer \<open>iterations\<close> the call
  returns a result that carries the scenario name and stress factor it was given and
  whose \<open>losses\<close> has \<open>max iterations 0\<close> entries; for \<open>iterations \<le> 0\<close> the
  \<open>losses\<close> are empty and \<open>var99\<close> is undefined. (The two primitives are taken to
  return a number on every argument.)
\<close>

theorem runVasicekSimulation_call_returns:
  "case runVasicekSimulation_call normCDF normInv loans iterations rho sf name e of
     Inl err \<Rightarrow> False
   | Inr (r, e') \<Rightarrow>
       length (losses r) = nat iterations \<and>
       scenarioName r = name \<and> stressFactor r = sf \<and>
       (iterations \<le> 0 \<longrightarrow> losses r = [] \<and> var99 r = None)"
proof -
  obtain r e' where run: "runVasicekSimulation normCDF normInv loans iterations rho sf name e = (r, e')"
    by (cases "runVasicekSimulation normCDF normInv loans iterations rho sf name e")
  then have r: "r = fst (runVasicekSimulation normCDF normInv loans iterations rho sf name e)"
    by simp
  have len: "length (losses r) = nat iterations"
    unfolding r by (rule length_losses_runVasicekSimulation)
  have echo: "scenarioName r = name \<and> stressFactor r = sf"
    unfolding r by (simp add: runVasicekSimulation_def Let_def case_prod_unfold)
  have none: "var99 r = None" if "iterations \<le> 0"
    unfolding r var99_runVasicekSimulation array_read_def
    using that by (simp add: length_losses_runVasicekSimulation)
  have empty: "losses r = []" if "iterations \<le> 0"
    using len that by simp
  show ?thesis
    using len echo none empty by (simp add: runVasicekSimulation_call_def run)
qed

theorem runVasicekSimulation_call_returns_witness:
  "(0::int) \<le> 0 \<and>
   (case runVasicekSimulation_call (\<lambda>x. x) (\<lambda>p. p)
           [\<lparr>id_loan = 0, EAD = 1000, LGD = 0.6, prior_late_payments = 1, pd_base = 0.05,
              defaulted = False\<rparr>] 0 1 1 ''Baseline Scenario''
           \<lparr>random_tape = (\<lambda>k. 1 / 2), clock_tape = (\<lambda>k. 0)\<rparr> of
      Inl err \<Rightarrow> False
    | Inr (r, e') \<Rightarrow> losses r = [] \<and> var99 r = None \<and> stressFactor r = 1)"
  using runVasicekSimulation_call_returns
          [where normCDF = "\<lambda>x. x" and normInv = "\<lambda>p. p"
             and loans = "[\<lparr>id_loan = 0, EAD = 1000, LGD = 0.6, prior_late_payments = 1,
                            pd_base = 0.05, defaulted = False\<rparr>]"
             and iterations = 0 and rho = 1 and sf = 1 and name = "''Baseline Scenario''"
             and e = "\<lparr>random_tape = (\<lambda>k. 1 / 2), clock_tape = (\<lambda>k. 0)\<rparr>"]
  by (auto split: sum.splits)

end
